theory Spec2Isabelle
  imports Complex_Main "HOL-Library.Stream"
begin

section \<open>Numbers, dates and the clock\<close>

text \<open>
  The pond analysis of \<^verbatim>\<open>src/main.py\<close> (class \<^verbatim>\<open>AquacultureManager\<close>) computes with
  Python numbers. Python's unbounded \<^verbatim>\<open>int\<close> is \<^typ>\<open>int\<close>. A Python \<^verbatim>\<open>float\<close> is
  modelled by the exact rational it denotes: a literal such as \<^verbatim>\<open>0.028\<close> is the rational
  \<open>28/1000\<close>, and products and sums are exact. The interpreter computes with binary
  doubles instead (relative error about \<open>2^-53\<close> per operation) and rounds the double,
  which lies a hair's breadth off the exact value. The two roundings agree unless the exact
  value lies exactly halfway between two neighbours. There the model goes to the even
  neighbour, while the interpreter goes whichever way the double fell: for the product
  \<^verbatim>\<open>115 * 150 * 0.81\<close>, exactly 13972.5, \<^verbatim>\<open>round\<close> gives 13972 here and 13973 in the
  interpreter, which holds 13972.500000000002; for \<^verbatim>\<open>0.5 * 0.03\<close>, exactly 0.015,
  \<^verbatim>\<open>round(x, 2)\<close> gives 0.02 here and 0.01 in the interpreter. For that reason the
  statements below about the population, the biomass, the estimated size and the daily feed
  at arbitrary inputs say that the output is a nearest neighbour of the exact value and
  leave the direction at an exact tie open, and every concrete input used below stays away
  from a tie. Infinities, NaN and overflow are outside this model.
\<close>

text \<open>
  \<^verbatim>\<open>round(x)\<close> with one argument returns the nearest integer, a tie going to the even
  neighbour. \<^verbatim>\<open>round(x, n)\<close> rounds in the same way at the \<open>n\<close>-th decimal place.
\<close>

definition py_round :: "rat \<Rightarrow> int" where
  "py_round x =
     (let f = \<lfloor>x\<rfloor>; r = x - of_int f in
      if r < 1 / 2 then f
      else if 1 / 2 < r then f + 1
      else if even f then f else f + 1)"

definition py_round_nd :: "rat \<Rightarrow> nat \<Rightarrow> rat" where
  "py_round_nd x n = of_int (py_round (x * 10 ^ n)) / 10 ^ n"

text \<open>
  A naive \<^verbatim>\<open>datetime\<close> is a count of microseconds since a fixed origin. The difference of
  two of them is a \<^verbatim>\<open>timedelta\<close>, whose \<^verbatim>\<open>.days\<close> is the floor of the difference in days
  (negative differences round towards minus infinity, as \<^verbatim>\<open>timedelta\<close> normalises).
\<close>

type_synonym datetime = int

definition timedelta_days :: "datetime \<Rightarrow> datetime \<Rightarrow> int" where
  "timedelta_days later earlier = (later - earlier) div 86400000000"

text \<open>
  \<^verbatim>\<open>datetime.now()\<close> reads the wall clock. The clock is explicit state: the stream of the
  readings that successive calls will return. Each call takes the head and leaves the tail.
\<close>

type_synonym clock = "datetime stream"

definition datetime_now :: "clock \<Rightarrow> datetime \<times> clock" where
  "datetime_now clk = (shd clk, stl clk)"

section \<open>Data model\<close>

record WeatherData =
  temperature :: rat
  condition :: string
  wind_speed :: rat
  precipitation :: rat
  timestamp :: datetime

record PondParameters =
  area :: rat
  depth :: rat
  stocking_density :: int
  culture_start_date :: datetime
  water_color :: string
  shrimp_behavior :: string
  secchi_disk :: rat
  ph :: rat
  location :: string

text \<open>The dictionaries that the analysis returns, one record per dictionary shape.\<close>

record GrowthPrediction =
  daily_growth :: rat
  weekly_growth :: rat
  estimated_size :: rat

record BiomassEstimation =
  estimated_population :: int
  survival_rate :: rat
  estimated_biomass :: rat

record WaterQuality =
  status :: string
  issues :: "string list"

record CarryingCapacity =
  max_biomass :: rat
  volume :: rat

record FeedingSlot =
  slot_time :: string
  percentage :: int

record FeedingRecommendation =
  daily_feed_kg :: rat
  feeding_schedule :: "FeedingSlot list"

record Recommendation =
  issue :: string
  action :: string
  priority :: string

record AnalysisResult =
  days_of_culture :: int
  growth_prediction :: GrowthPrediction
  biomass_estimation :: BiomassEstimation
  water_quality :: WaterQuality
  carrying_capacity :: CarryingCapacity
  feeding_recommendation :: FeedingRecommendation
  recommendations :: "Recommendation list"
  confidence_score :: int

datatype py_error = KeyError | AttributeError

section \<open>Input validation\<close>

text \<open>
  \<^verbatim>\<open>self.VALID_INPUTS\<close> and \<^verbatim>\<open>self.MEASUREMENT_RANGES\<close>, in the insertion order of the
  dictionaries. A bound carries, beside its value, the text that the f-string prints for
  it: the integer literal \<^verbatim>\<open>10\<close> prints as \<^verbatim>\<open>10\<close>, the float literal \<^verbatim>\<open>6.0\<close> as \<^verbatim>\<open>6.0\<close>.
\<close>

definition VALID_INPUTS :: "(string \<times> string list) list" where
  "VALID_INPUTS =
     [(''water_color'', [''Clear'', ''Green'', ''Brown'', ''Other'']),
      (''shrimp_behavior'', [''Active'', ''Lethargic'', ''Coming to Surface''])]"

type_synonym bound = "rat \<times> string"

definition MEASUREMENT_RANGES :: "(string \<times> bound \<times> bound) list" where
  "MEASUREMENT_RANGES =
     [(''secchi_disk'', (10, ''10''), (60, ''60'')),
      (''ph'', (6, ''6.0''), (9, ''9.0'')),
      (''area'', (100, ''100''), (10000, ''10000'')),
      (''depth'', (0.8, ''0.8''), (2.5, ''2.5'')),
      (''stocking_density'', (15, ''15''), (150, ''150''))]"

text \<open>
  \<^verbatim>\<open>getattr(pond_params, field)\<close> for the string-valued attributes; any other name has no
  string attribute behind it here and is Python's \<^verbatim>\<open>AttributeError\<close>.
\<close>

definition getattr :: "PondParameters \<Rightarrow> string \<Rightarrow> string option" where
  "getattr pond_params field =
     (if field = ''water_color'' then Some (water_color pond_params)
      else if field = ''shrimp_behavior'' then Some (shrimp_behavior pond_params)
      else if field = ''location'' then Some (location pond_params)
      else None)"

text \<open>\<^verbatim>\<open>', '.join(valid_values)\<close>\<close>

fun join :: "string \<Rightarrow> string list \<Rightarrow> string" where
  "join sep [] = []"
| "join sep [x] = x"
| "join sep (x # y # ys) = x @ sep @ join sep (y # ys)"

text \<open>The first loop of \<^verbatim>\<open>validate_input\<close>, over the items of \<^verbatim>\<open>VALID_INPUTS\<close>.\<close>

fun check_valid_inputs ::
  "PondParameters \<Rightarrow> (string \<times> string list) list \<Rightarrow> string list \<Rightarrow> py_error + string list" where
  "check_valid_inputs pond_params [] errors = Inr errors"
| "check_valid_inputs pond_params ((field, valid_values) # rest) errors =
     (case getattr pond_params field of
        None \<Rightarrow> Inl AttributeError
      | Some v \<Rightarrow>
          check_valid_inputs pond_params rest
            (if v \<notin> set valid_values
             then errors @ [''Invalid '' @ field @ ''. Must be one of: '' @ join '', '' valid_values]
             else errors))"

text \<open>The dictionary \<^verbatim>\<open>numeric_fields\<close>, in insertion order.\<close>

definition numeric_fields :: "PondParameters \<Rightarrow> (string \<times> rat) list" where
  "numeric_fields pond_params =
     [(''secchi_disk'', secchi_disk pond_params),
      (''ph'', ph pond_params),
      (''area'', area pond_params),
      (''depth'', depth pond_params),
      (''stocking_density'', of_int (stocking_density pond_params))]"

text \<open>
  The second loop, over the items of \<^verbatim>\<open>numeric_fields\<close>; the subscript
  \<^verbatim>\<open>self.MEASUREMENT_RANGES[measure]\<close> raises \<^verbatim>\<open>KeyError\<close> on a missing key.
\<close>

fun check_measurements ::
  "(string \<times> bound \<times> bound) list \<Rightarrow> (string \<times> rat) list \<Rightarrow> string list \<Rightarrow> py_error + string list" where
  "check_measurements ranges [] errors = Inr errors"
| "check_measurements ranges ((measure_name, v) # rest) errors =
     (case map_of ranges measure_name of
        None \<Rightarrow> Inl KeyError
      | Some ((min_val, min_txt), (max_val, max_txt)) \<Rightarrow>
          check_measurements ranges rest
            (if \<not> (min_val \<le> v \<and> v \<le> max_val)
             then errors @ [measure_name @ '' must be between '' @ min_txt @ '' and '' @ max_txt]
             else errors))"

text \<open>
  \<^verbatim>\<open>validate_input\<close>: the two loops, then the comparison of the start date with a fresh
  reading of the clock. An exception leaves the function before the clock is read.
\<close>

definition validate_input :: "PondParameters \<Rightarrow> clock \<Rightarrow> (py_error + string list) \<times> clock" where
  "validate_input pond_params clk =
     (case check_valid_inputs pond_params VALID_INPUTS [] of
        Inl e \<Rightarrow> (Inl e, clk)
      | Inr errors1 \<Rightarrow>
          (case check_measurements MEASUREMENT_RANGES (numeric_fields pond_params) errors1 of
             Inl e \<Rightarrow> (Inl e, clk)
           | Inr errors2 \<Rightarrow>
               (let (now, clk') = datetime_now clk in
                (Inr (if culture_start_date pond_params > now
                      then errors2 @ [''Culture start date cannot be in the future'']
                      else errors2), clk'))))"

section \<open>The analysis\<close>

definition assess_water_quality :: "PondParameters \<Rightarrow> WaterQuality" where
  "assess_water_quality pond_params =
     (let wq0 = \<lparr>status = ''Good'', issues = []\<rparr>;
          wq1 = (if \<not> (6.5 \<le> ph pond_params \<and> ph pond_params \<le> 8.5)
                 then \<lparr>status = ''Poor'', issues = issues wq0 @ [''pH out of optimal range'']\<rparr>
                 else wq0);
          wq2 = (if secchi_disk pond_params < 20
                 then \<lparr>status = ''Poor'', issues = issues wq1 @ [''Water transparency is too low'']\<rparr>
                 else wq1)
      in wq2)"

text \<open>
  The growth rate before rounding, \<^verbatim>\<open>adjusted_growth\<close> in \<^verbatim>\<open>_predict_growth\<close>. A
  \<^verbatim>\<open>WeatherData\<close> object is always truthy, so \<^verbatim>\<open>if weather:\<close> tests for \<^verbatim>\<open>None\<close>.
\<close>

definition density_factor :: "PondParameters \<Rightarrow> rat" where
  "density_factor pond_params =
     (if stocking_density pond_params < 50 then 1.1
      else if stocking_density pond_params > 100 then 0.9
      else 1.0)"

definition depth_factor :: "PondParameters \<Rightarrow> rat" where
  "depth_factor pond_params =
     (if depth pond_params < 1.2 then 0.9
      else if depth pond_params > 1.8 then 0.95
      else 1.0)"

definition temp_factor :: "WeatherData option \<Rightarrow> rat" where
  "temp_factor weather =
     (case weather of
        None \<Rightarrow> 1.0
      | Some w \<Rightarrow>
          if temperature w < 25 then 0.8
          else if temperature w > 32 then 0.7
          else 1.0)"

definition adjusted_growth :: "PondParameters \<Rightarrow> WeatherData option \<Rightarrow> rat" where
  "adjusted_growth pond_params weather =
     0.028 * density_factor pond_params * depth_factor pond_params * temp_factor weather"

text \<open>
  \<^verbatim>\<open>_predict_growth\<close> rounds the unrounded rate, 7 times it, and 0.002 plus the rate times
  the days, each on its own. The products and the sum are exact here and doubles in the
  interpreter, so the two can differ in the last decimal kept when the exact value is a tie
  (rate 0.020482 after 25 days: exactly 0.51405, the interpreter returns 0.5141).
\<close>

definition predict_growth :: "PondParameters \<Rightarrow> WeatherData option \<Rightarrow> int \<Rightarrow> GrowthPrediction" where
  "predict_growth pond_params weather days =
     (let g = adjusted_growth pond_params weather in
      \<lparr>daily_growth = py_round_nd g 4,
       weekly_growth = py_round_nd (g * 7) 4,
       estimated_size = py_round_nd (0.002 + g * of_int days) 4\<rparr>)"

definition estimate_survival_rate :: "PondParameters \<Rightarrow> clock \<Rightarrow> rat \<times> clock" where
  "estimate_survival_rate pond_params clk =
     (let (now, clk') = datetime_now clk;
          days = timedelta_days now (culture_start_date pond_params);
          base_survival = 0.85;
          base_survival = (if stocking_density pond_params > 100
                           then base_survival * 0.95 else base_survival);
          base_survival = (if days > 60 then base_survival * 0.98 else base_survival)
      in (py_round_nd base_survival 2, clk'))"

text \<open>
  In \<^verbatim>\<open>_estimate_biomass\<close> the local variable \<^verbatim>\<open>estimated_population\<close> (\<open>population\<close> below)
  holds the unrounded product; it is rounded only where it is stored in the dictionary.
  Again the products are exact here and doubles in the interpreter, with the same
  difference at a tie.
\<close>

definition estimate_biomass ::
  "PondParameters \<Rightarrow> GrowthPrediction \<Rightarrow> clock \<Rightarrow> BiomassEstimation \<times> clock" where
  "estimate_biomass pond_params growth clk =
     (let (survival, clk') = estimate_survival_rate pond_params clk;
          population = area pond_params * of_int (stocking_density pond_params) * survival
      in (\<lparr>estimated_population = py_round population,
           survival_rate = survival,
           estimated_biomass = py_round_nd (population * estimated_size growth) 2 / 1000\<rparr>,
          clk'))"

definition calculate_carrying_capacity :: "PondParameters \<Rightarrow> CarryingCapacity" where
  "calculate_carrying_capacity pond_params =
     (let vol = area pond_params * depth pond_params;
          max_biomass_per_m3 = 0.4
      in \<lparr>max_biomass = py_round_nd (vol * max_biomass_per_m3) 2,
          volume = py_round_nd vol 2\<rparr>)"

text \<open>
  \<^verbatim>\<open>_calculate_feed\<close>: 3 percent of the biomass, rounded to 2 decimals, with a fixed
  schedule. The product is exact here and a double in the interpreter (biomass 0.5: exactly
  0.015, the interpreter holds a double just below it and returns 0.01).
\<close>

definition calculate_feed :: "rat \<Rightarrow> FeedingRecommendation" where
  "calculate_feed biomass =
     (let daily_feed_percentage = 0.03;
          daily_feed = biomass * daily_feed_percentage
      in \<lparr>daily_feed_kg = py_round_nd daily_feed 2,
          feeding_schedule =
            [\<lparr>slot_time = ''06:00'', percentage = 15\<rparr>,
             \<lparr>slot_time = ''09:00'', percentage = 15\<rparr>,
             \<lparr>slot_time = ''12:00'', percentage = 15\<rparr>,
             \<lparr>slot_time = ''15:00'', percentage = 15\<rparr>,
             \<lparr>slot_time = ''18:00'', percentage = 20\<rparr>,
             \<lparr>slot_time = ''21:00'', percentage = 20\<rparr>]\<rparr>)"

definition generate_recommendations ::
  "PondParameters \<Rightarrow> WeatherData option \<Rightarrow> WaterQuality \<Rightarrow> BiomassEstimation \<Rightarrow>
   CarryingCapacity \<Rightarrow> Recommendation list" where
  "generate_recommendations pond_params weather wq biomass capacity =
     (if estimated_biomass biomass > max_biomass capacity * 0.8
      then [\<lparr>issue = ''Approaching Carrying Capacity'',
             action = ''Short term: consider partial harvest, increase aeration. Long term: plan water exchange or pond expansion'',
             priority = ''High''\<rparr>]
      else [])
     @ map (\<lambda>i. \<lparr>issue = i,
                  action = ''Implement water quality management measures'',
                  priority = ''High''\<rparr>) (issues wq)
     @ (case weather of
          None \<Rightarrow> []
        | Some w \<Rightarrow>
            if temperature w > 32
            then [\<lparr>issue = ''High Temperature'',
                   action = ''Increase aeration and monitor oxygen levels'',
                   priority = ''Medium''\<rparr>]
            else [])"

definition calculate_confidence :: "PondParameters \<Rightarrow> WeatherData option \<Rightarrow> clock \<Rightarrow> int \<times> clock" where
  "calculate_confidence pond_params weather clk =
     (let confidence = 100;
          confidence = (if weather = None then confidence - 20 else confidence);
          confidence = (if ph pond_params < 6.5 \<or> ph pond_params > 8.8
                        then confidence - 10 else confidence);
          confidence = (if secchi_disk pond_params < 15 \<or> secchi_disk pond_params > 55
                        then confidence - 10 else confidence);
          confidence = (if stocking_density pond_params > 120
                        then confidence - 10 else confidence);
          (now, clk') = datetime_now clk;
          days = timedelta_days now (culture_start_date pond_params);
          confidence = (if days > 100 then confidence - 5 else confidence)
      in (max confidence 0, clk'))"

text \<open>
  \<^verbatim>\<open>analyze_pond\<close>. The clock is read three times: here for \<^verbatim>\<open>days_of_culture\<close>, inside
  \<^verbatim>\<open>_estimate_survival_rate\<close> (called by \<^verbatim>\<open>_estimate_biomass\<close>), and inside
  \<^verbatim>\<open>_calculate_confidence\<close>, which runs last, while the result dictionary is built.
\<close>

definition analyze_pond ::
  "PondParameters \<Rightarrow> WeatherData option \<Rightarrow> clock \<Rightarrow> AnalysisResult \<times> clock" where
  "analyze_pond pond_params weather clk =
     (let (now, clk1) = datetime_now clk;
          days = timedelta_days now (culture_start_date pond_params);
          growth = predict_growth pond_params weather days;
          (biomass, clk2) = estimate_biomass pond_params growth clk1;
          wq = assess_water_quality pond_params;
          capacity = calculate_carrying_capacity pond_params;
          feeding = calculate_feed (estimated_biomass biomass);
          recs = generate_recommendations pond_params weather wq biomass capacity;
          (confidence, clk3) = calculate_confidence pond_params weather clk2
      in (\<lparr>days_of_culture = days,
           growth_prediction = growth,
           biomass_estimation = biomass,
           water_quality = wq,
           carrying_capacity = capacity,
           feeding_recommendation = feeding,
           recommendations = recs,
           confidence_score = confidence\<rparr>,
          clk3))"

section \<open>Sample inputs\<close>

text \<open>
  The pond of the end-to-end scenario of the specification: every field inside its
  admissible range, no threshold of the analysis triggered. Culture starts at the origin
  of time, so a clock reading of \<open>n * day\<close> is \<open>n\<close> days of culture.
\<close>

definition scenario_pond :: PondParameters where
  "scenario_pond =
     \<lparr>area = 1000, depth = 1.5, stocking_density = 80, culture_start_date = 0,
      water_color = ''Clear'', shrimp_behavior = ''Active'', secchi_disk = 30, ph = 7.5,
      location = ''Ranipet''\<rparr>"

definition day :: int where
  "day = 86400000000"

section \<open>Rounding\<close>

lemma floor_rat_numeral: "\<lfloor>numeral a / numeral b :: rat\<rfloor> = numeral a div numeral b"
  by (metis floor_divide_of_int_eq of_int_numeral)

lemma py_round_upper: "of_int (py_round x) \<le> x + 1 / 2"
  unfolding py_round_def Let_def by (auto; linarith)

lemma py_round_lower: "x - 1 / 2 \<le> of_int (py_round x)"
  unfolding py_round_def Let_def by (auto; linarith)

lemma py_round_of_int: "py_round (of_int k) = k"
  by (simp add: py_round_def)

lemma py_round_nd_error: "\<bar>py_round_nd x n - x\<bar> \<le> 1 / (2 * 10 ^ n)"
proof -
  define y where "y = x * 10 ^ n"
  define k :: rat where "k = of_int (py_round y)"
  have p: "(0::rat) < 10 ^ n" by simp
  have a: "\<bar>k - y\<bar> \<le> 1 / 2"
    unfolding k_def using py_round_upper [of y] py_round_lower [of y] by linarith
  have "py_round_nd x n - x = (k - y) / 10 ^ n"
    using p by (simp add: py_round_nd_def k_def y_def diff_divide_distrib)
  then have "\<bar>py_round_nd x n - x\<bar> = \<bar>k - y\<bar> / 10 ^ n"
    using p by simp
  also have "\<dots> \<le> (1 / 2) / 10 ^ n"
    by (rule divide_right_mono [OF a]) simp
  finally show ?thesis by simp
qed

lemma py_round_strict_mono: "x + 1 < y \<Longrightarrow> py_round x < py_round y"
proof -
  assume a: "x + 1 < y"
  have "rat_of_int (py_round x) \<le> x + 1 / 2" by (rule py_round_upper)
  also have "\<dots> < y - 1 / 2" using a by simp
  also have "\<dots> \<le> of_int (py_round y)" by (rule py_round_lower)
  finally show ?thesis by simp
qed

lemma py_round_nd_strict_mono:
  assumes "x + 1 / 10 ^ n < y"
  shows "py_round_nd x n < py_round_nd y n"
proof -
  have p: "(0::rat) < 10 ^ n" by simp
  have "(x + 1 / 10 ^ n) * 10 ^ n < y * 10 ^ n"
    using assms p by (simp only: mult_less_cancel_right_pos)
  then have "x * 10 ^ n + 1 < y * 10 ^ n"
    using p by (simp add: distrib_right)
  then have "py_round (x * 10 ^ n) < py_round (y * 10 ^ n)"
    by (rule py_round_strict_mono)
  then have "rat_of_int (py_round (x * 10 ^ n)) < rat_of_int (py_round (y * 10 ^ n))"
    by simp
  then show ?thesis
    unfolding py_round_nd_def using p by (simp add: divide_strict_right_mono)
qed

lemma py_round_nd_fixed_iff: "py_round_nd x n = x \<longleftrightarrow> x * 10 ^ n \<in> \<int>"
proof
  assume "py_round_nd x n = x"
  then have "x * 10 ^ n = of_int (py_round (x * 10 ^ n))"
    by (simp add: py_round_nd_def field_simps)
  then show "x * 10 ^ n \<in> \<int>" by (metis Ints_of_int)
next
  assume "x * 10 ^ n \<in> \<int>"
  then obtain k where k: "x * 10 ^ n = of_int k" by (auto elim: Ints_cases)
  then have "py_round (x * 10 ^ n) = k" by (simp add: py_round_of_int)
  then show "py_round_nd x n = x"
    using k by (simp add: py_round_nd_def field_simps)
qed

lemmas eval_round = py_round_nd_def py_round_def Let_def floor_rat_numeral

lemma decimal_times_int:
  assumes "py_round_nd x n = x"
  shows "py_round_nd (x * of_int m) n = x * of_int m"
proof -
  from assms obtain k where "x * 10 ^ n = of_int k"
    unfolding py_round_nd_fixed_iff by (auto elim: Ints_cases)
  then have "x * of_int m * 10 ^ n = of_int (k * m)"
    by (simp add: mult.commute mult.left_commute)
  then have "x * of_int m * 10 ^ n \<in> \<int>" by (metis Ints_of_int)
  then show ?thesis by (simp only: py_round_nd_fixed_iff)
qed

lemma decimal_plus_times_int:
  assumes "py_round_nd c n = c" and "py_round_nd x n = x"
  shows "py_round_nd (c + x * of_int m) n = c + x * of_int m"
proof -
  from assms have "c * 10 ^ n \<in> \<int>" and "x * 10 ^ n \<in> \<int>"
    by (simp_all only: py_round_nd_fixed_iff)
  then have "c * 10 ^ n + x * 10 ^ n * of_int m \<in> \<int>"
    by (simp only: Ints_add Ints_mult Ints_of_int)
  moreover have "(c + x * of_int m) * 10 ^ n = c * 10 ^ n + x * 10 ^ n * of_int m"
    by (simp add: distrib_right mult.commute mult.left_commute)
  ultimately have "(c + x * of_int m) * 10 ^ n \<in> \<int>" by simp
  then show ?thesis by (simp only: py_round_nd_fixed_iff)
qed


lemma py_round_nd_decimal: "\<exists>k::int. py_round_nd x n = of_int k / 10 ^ n"
  unfolding py_round_nd_def by blast

section \<open>Water quality\<close>

text \<open>
  Claim C9. The water-quality verdict is \<open>Good\<close> with no issue exactly when the pH lies in
  \<open>[6.5, 8.5]\<close> and the Secchi depth is at least 20. A pH outside the interval appends
  the issue \<open>pH out of optimal range\<close>, a Secchi depth below 20 appends the issue
  \<open>Water transparency is too low\<close>; either one makes the status \<open>Poor\<close>, and when both
  hold both issues are listed, the pH issue first.
\<close>

theorem water_quality_assessment:
  "(status (assess_water_quality p) = ''Good'' \<and> issues (assess_water_quality p) = []
      \<longleftrightarrow> 6.5 \<le> ph p \<and> ph p \<le> 8.5 \<and> 20 \<le> secchi_disk p)
   \<and> (status (assess_water_quality p) = ''Good'' \<longleftrightarrow> issues (assess_water_quality p) = [])
   \<and> issues (assess_water_quality p) =
        (if 6.5 \<le> ph p \<and> ph p \<le> 8.5 then [] else [''pH out of optimal range''])
        @ (if secchi_disk p < 20 then [''Water transparency is too low''] else [])
   \<and> status (assess_water_quality p) =
        (if 6.5 \<le> ph p \<and> ph p \<le> 8.5 \<and> \<not> secchi_disk p < 20 then ''Good'' else ''Poor'')"
  by (auto simp add: assess_water_quality_def Let_def)

section \<open>Confidence score\<close>

text \<open>
  Claim C5. The confidence score is 100 minus the penalties that apply (20 without a
  weather reading, 10 for a pH below 6.5 or above 8.8, 10 for a Secchi depth below 15 or
  above 55, 10 for a stocking density above 120, 5 for more than 100 days of culture, the
  days being counted at the clock reading that the scorer takes), clamped below at 0. It
  lies between 0 and 100, and a pond with stocking density 130, pH 7, Secchi depth 30, no
  weather and 50 days of culture scores 70.
\<close>

theorem confidence_score_penalties:
  "fst (calculate_confidence p w clk) =
     max (100
          - (if w = None then 20 else 0)
          - (if ph p < 6.5 \<or> ph p > 8.8 then 10 else 0)
          - (if secchi_disk p < 15 \<or> secchi_disk p > 55 then 10 else 0)
          - (if stocking_density p > 120 then 10 else 0)
          - (if timedelta_days (shd clk) (culture_start_date p) > 100 then 5 else 0)) 0
   \<and> 0 \<le> fst (calculate_confidence p w clk)
   \<and> fst (calculate_confidence p w clk) \<le> 100
   \<and> (stocking_density p = 130 \<and> ph p = 7 \<and> secchi_disk p = 30
        \<and> timedelta_days (shd clk) (culture_start_date p) = 50
      \<longrightarrow> fst (calculate_confidence p None clk) = 70)"
  by (simp add: calculate_confidence_def datetime_now_def Let_def)

theorem confidence_score_penalties_witness:
  "stocking_density (scenario_pond\<lparr>stocking_density := 130, ph := 7\<rparr>) = 130
   \<and> ph (scenario_pond\<lparr>stocking_density := 130, ph := 7\<rparr>) = 7
   \<and> secchi_disk (scenario_pond\<lparr>stocking_density := 130, ph := 7\<rparr>) = 30
   \<and> timedelta_days (shd (sconst (50 * day)))
         (culture_start_date (scenario_pond\<lparr>stocking_density := 130, ph := 7\<rparr>)) = 50
   \<and> fst (calculate_confidence (scenario_pond\<lparr>stocking_density := 130, ph := 7\<rparr>) None
         (sconst (50 * day))) = 70"
  using confidence_score_penalties
    [of "scenario_pond\<lparr>stocking_density := 130, ph := 7\<rparr>" None "sconst (50 * day)"]
  by (simp add: scenario_pond_def day_def timedelta_days_def)

section \<open>Survival rate\<close>

lemma survival_rate_cases:
  "fst (estimate_survival_rate p clk) =
     (if stocking_density p > 100
      then (if timedelta_days (shd clk) (culture_start_date p) > 60 then 0.79 else 0.81)
      else (if timedelta_days (shd clk) (culture_start_date p) > 60 then 0.83 else 0.85))"
  by (simp add: estimate_survival_rate_def datetime_now_def Let_def py_round_nd_def py_round_def floor_rat_numeral)

lemma survival_rate_attained:
  "fst (estimate_survival_rate scenario_pond (sconst (45 * day))) = 0.85"
  "fst (estimate_survival_rate scenario_pond (sconst (61 * day))) = 0.83"
  "fst (estimate_survival_rate (scenario_pond\<lparr>stocking_density := 130\<rparr>) (sconst (45 * day))) = 0.81"
  "fst (estimate_survival_rate (scenario_pond\<lparr>stocking_density := 130\<rparr>) (sconst (61 * day))) = 0.79"
  by (simp_all add: survival_rate_cases scenario_pond_def day_def timedelta_days_def)

text \<open>
  Claim C10. The survival rate is always one of the four values 0.79, 0.81, 0.83 and 0.85,
  each of which occurs, and so it is a fraction strictly between 0 and 1.
\<close>

theorem survival_rate_four_values:
  "fst (estimate_survival_rate p clk) \<in> {0.79, 0.81, 0.83, 0.85}
   \<and> 0 < fst (estimate_survival_rate p clk)
   \<and> fst (estimate_survival_rate p clk) < 1
   \<and> range (\<lambda>(q, c). fst (estimate_survival_rate q c)) = {0.79, 0.81, 0.83, 0.85}"
proof -
  have sub: "fst (estimate_survival_rate q c) \<in> {0.79, 0.81, 0.83, 0.85}" for q c
    by (simp add: survival_rate_cases)
  have "{0.79, 0.81, 0.83, 0.85} \<subseteq> range (\<lambda>(q, c). fst (estimate_survival_rate q c))"
  proof -
    have "fst (estimate_survival_rate q c) \<in> range (\<lambda>(q, c). fst (estimate_survival_rate q c))" for q c
      by (rule range_eqI [where x = "(q, c)"]) simp
    from this [of scenario_pond "sconst (45 * day)"]
         this [of scenario_pond "sconst (61 * day)"]
         this [of "scenario_pond\<lparr>stocking_density := 130\<rparr>" "sconst (45 * day)"]
         this [of "scenario_pond\<lparr>stocking_density := 130\<rparr>" "sconst (61 * day)"]
    show ?thesis
      by (simp only: survival_rate_attained insert_subset empty_subsetI simp_thms)
  qed
  moreover have "range (\<lambda>(q, c). fst (estimate_survival_rate q c)) \<subseteq> {0.79, 0.81, 0.83, 0.85}"
    using sub by (auto simp del: insert_iff)
  ultimately have r: "range (\<lambda>(q, c). fst (estimate_survival_rate q c)) = {0.79, 0.81, 0.83, 0.85}"
    by (rule_tac equalityI)
  have "0 < fst (estimate_survival_rate p clk)" "fst (estimate_survival_rate p clk) < 1"
    by (simp_all add: survival_rate_cases)
  with sub [of p clk] r show ?thesis by blast
qed

section \<open>Validator\<close>

text \<open>
  Both loops run to the end of their dictionary: an iteration appends at most one message
  and never leaves the loop. The result is the concatenation of the outcomes of the eight
  checks, in the order of the source, and no exception is raised.
\<close>

lemma check_valid_inputs_step:
  "getattr p field = Some v \<Longrightarrow>
   check_valid_inputs p ((field, valid_values) # rest) errors =
     check_valid_inputs p rest
       (errors @ (if v \<in> set valid_values then []
                  else [''Invalid '' @ field @ ''. Must be one of: '' @ join '', '' valid_values]))"
  by simp

lemma getattr_fields:
  "getattr p ''water_color'' = Some (water_color p)"
  "getattr p ''shrimp_behavior'' = Some (shrimp_behavior p)"
  by (simp_all add: getattr_def)

lemma check_valid_inputs_eq:
  "check_valid_inputs p VALID_INPUTS errors =
     Inr (errors
        @ (if water_color p \<in> set [''Clear'', ''Green'', ''Brown'', ''Other''] then []
           else [''Invalid water_color. Must be one of: Clear, Green, Brown, Other''])
        @ (if shrimp_behavior p \<in> set [''Active'', ''Lethargic'', ''Coming to Surface''] then []
           else [''Invalid shrimp_behavior. Must be one of: Active, Lethargic, Coming to Surface'']))"
  unfolding VALID_INPUTS_def
  by (simp only: check_valid_inputs_step [OF getattr_fields(1)]
        check_valid_inputs_step [OF getattr_fields(2)] check_valid_inputs.simps(1)
        join.simps append.simps append_assoc)

lemma check_measurements_step:
  "map_of ranges m = Some ((lo, lt), (hi, ht)) \<Longrightarrow>
   check_measurements ranges ((m, v) # rest) errors =
     check_measurements ranges rest
       (errors @ (if lo \<le> v \<and> v \<le> hi then []
                  else [m @ '' must be between '' @ lt @ '' and '' @ ht]))"
  by simp

lemma MEASUREMENT_RANGES_lookup:
  "map_of MEASUREMENT_RANGES ''secchi_disk'' = Some ((10, ''10''), (60, ''60''))"
  "map_of MEASUREMENT_RANGES ''ph'' = Some ((6, ''6.0''), (9, ''9.0''))"
  "map_of MEASUREMENT_RANGES ''area'' = Some ((100, ''100''), (10000, ''10000''))"
  "map_of MEASUREMENT_RANGES ''depth'' = Some ((0.8, ''0.8''), (2.5, ''2.5''))"
  "map_of MEASUREMENT_RANGES ''stocking_density'' = Some ((15, ''15''), (150, ''150''))"
  by (simp_all add: MEASUREMENT_RANGES_def)

lemma check_measurements_eq:
  "check_measurements MEASUREMENT_RANGES (numeric_fields p) errors =
     Inr (errors
        @ (if 10 \<le> secchi_disk p \<and> secchi_disk p \<le> 60 then []
           else [''secchi_disk must be between 10 and 60''])
        @ (if 6 \<le> ph p \<and> ph p \<le> 9 then []
           else [''ph must be between 6.0 and 9.0''])
        @ (if 100 \<le> area p \<and> area p \<le> 10000 then []
           else [''area must be between 100 and 10000''])
        @ (if 0.8 \<le> depth p \<and> depth p \<le> 2.5 then []
           else [''depth must be between 0.8 and 2.5''])
        @ (if 15 \<le> rat_of_int (stocking_density p) \<and> rat_of_int (stocking_density p) \<le> 150 then []
           else [''stocking_density must be between 15 and 150'']))"
  unfolding numeric_fields_def
  by (simp only: check_measurements_step [OF MEASUREMENT_RANGES_lookup(1)]
        check_measurements_step [OF MEASUREMENT_RANGES_lookup(2)]
        check_measurements_step [OF MEASUREMENT_RANGES_lookup(3)]
        check_measurements_step [OF MEASUREMENT_RANGES_lookup(4)]
        check_measurements_step [OF MEASUREMENT_RANGES_lookup(5)]
        check_measurements.simps(1) append.simps append_assoc)

lemma stocking_density_range:
  "15 \<le> rat_of_int k \<and> rat_of_int k \<le> 150 \<longleftrightarrow> 15 \<le> k \<and> k \<le> 150"
  by (metis of_int_le_iff of_int_numeral)

lemma validate_input_errors:
  "fst (validate_input p clk) =
     Inr ((if water_color p \<in> set [''Clear'', ''Green'', ''Brown'', ''Other''] then []
           else [''Invalid water_color. Must be one of: Clear, Green, Brown, Other''])
        @ (if shrimp_behavior p \<in> set [''Active'', ''Lethargic'', ''Coming to Surface''] then []
           else [''Invalid shrimp_behavior. Must be one of: Active, Lethargic, Coming to Surface''])
        @ (if 10 \<le> secchi_disk p \<and> secchi_disk p \<le> 60 then []
           else [''secchi_disk must be between 10 and 60''])
        @ (if 6 \<le> ph p \<and> ph p \<le> 9 then []
           else [''ph must be between 6.0 and 9.0''])
        @ (if 100 \<le> area p \<and> area p \<le> 10000 then []
           else [''area must be between 100 and 10000''])
        @ (if 0.8 \<le> depth p \<and> depth p \<le> 2.5 then []
           else [''depth must be between 0.8 and 2.5''])
        @ (if 15 \<le> stocking_density p \<and> stocking_density p \<le> 150 then []
           else [''stocking_density must be between 15 and 150''])
        @ (if culture_start_date p > shd clk
           then [''Culture start date cannot be in the future''] else []))"
proof -
  have "(if culture_start_date p > shd clk then errs @ [m] else errs)
        = errs @ (if culture_start_date p > shd clk then [m] else [])" for errs :: "string list" and m
    by simp
  then show ?thesis
    unfolding validate_input_def
    by (simp only: check_valid_inputs_eq check_measurements_eq stocking_density_range
        datetime_now_def sum.case prod.case Let_def fst_conv append_Nil append_assoc)
qed

lemma validate_input_ok_iff:
  "fst (validate_input p clk) = Inr [] \<longleftrightarrow>
     water_color p \<in> set [''Clear'', ''Green'', ''Brown'', ''Other'']
     \<and> shrimp_behavior p \<in> set [''Active'', ''Lethargic'', ''Coming to Surface'']
     \<and> (10 \<le> secchi_disk p \<and> secchi_disk p \<le> 60)
     \<and> (6 \<le> ph p \<and> ph p \<le> 9)
     \<and> (100 \<le> area p \<and> area p \<le> 10000)
     \<and> (0.8 \<le> depth p \<and> depth p \<le> 2.5)
     \<and> (15 \<le> stocking_density p \<and> stocking_density p \<le> 150)
     \<and> culture_start_date p \<le> shd clk"
  unfolding validate_input_errors
  by (simp only: sum.inject append_is_Nil_conv if_distrib [of "\<lambda>xs. xs = []"]
        list.simps simp_thms if_True if_False if_bool_eq_conj not_less)

lemma validator_at_boundary:
  assumes "fst (validate_input p clk) = Inr []"
  shows "fst (validate_input (p\<lparr>secchi_disk := 10\<rparr>) clk) = Inr []"
    and "fst (validate_input (p\<lparr>secchi_disk := 60\<rparr>) clk) = Inr []"
    and "fst (validate_input (p\<lparr>ph := 6.0\<rparr>) clk) = Inr []"
    and "fst (validate_input (p\<lparr>ph := 9.0\<rparr>) clk) = Inr []"
    and "fst (validate_input (p\<lparr>area := 100\<rparr>) clk) = Inr []"
    and "fst (validate_input (p\<lparr>area := 10000\<rparr>) clk) = Inr []"
    and "fst (validate_input (p\<lparr>depth := 0.8\<rparr>) clk) = Inr []"
    and "fst (validate_input (p\<lparr>depth := 2.5\<rparr>) clk) = Inr []"
    and "fst (validate_input (p\<lparr>stocking_density := 15\<rparr>) clk) = Inr []"
    and "fst (validate_input (p\<lparr>stocking_density := 150\<rparr>) clk) = Inr []"
  using assms unfolding validate_input_ok_iff by simp_all

lemma validator_one_outside:
  assumes "fst (validate_input p clk) = Inr []"
  shows "fst (validate_input (p\<lparr>secchi_disk := 10 - 1\<rparr>) clk) = Inr [''secchi_disk must be between 10 and 60'']"
    and "fst (validate_input (p\<lparr>secchi_disk := 60 + 1\<rparr>) clk) = Inr [''secchi_disk must be between 10 and 60'']"
    and "fst (validate_input (p\<lparr>ph := 6.0 - 1\<rparr>) clk) = Inr [''ph must be between 6.0 and 9.0'']"
    and "fst (validate_input (p\<lparr>ph := 9.0 + 1\<rparr>) clk) = Inr [''ph must be between 6.0 and 9.0'']"
    and "fst (validate_input (p\<lparr>area := 100 - 1\<rparr>) clk) = Inr [''area must be between 100 and 10000'']"
    and "fst (validate_input (p\<lparr>area := 10000 + 1\<rparr>) clk) = Inr [''area must be between 100 and 10000'']"
    and "fst (validate_input (p\<lparr>depth := 0.8 - 1\<rparr>) clk) = Inr [''depth must be between 0.8 and 2.5'']"
    and "fst (validate_input (p\<lparr>depth := 2.5 + 1\<rparr>) clk) = Inr [''depth must be between 0.8 and 2.5'']"
    and "fst (validate_input (p\<lparr>stocking_density := 15 - 1\<rparr>) clk) = Inr [''stocking_density must be between 15 and 150'']"
    and "fst (validate_input (p\<lparr>stocking_density := 150 + 1\<rparr>) clk) = Inr [''stocking_density must be between 15 and 150'']"
  using assms unfolding validate_input_ok_iff unfolding validate_input_errors
  by (simp_all add: not_less)

text \<open>
  Claim C6. The validator never raises and returns the concatenation of the eight
  independent checks, so simultaneous violations are all reported in the one list. Every
  numeric range is closed: starting from parameters without violation, moving one numeric
  field onto either end of its range still gives no violation, and moving it one unit
  beyond either end gives exactly the one message of that field.
\<close>

theorem validator_ranges_inclusive:
  "fst (validate_input p clk) =
     Inr ((if water_color p \<in> set [''Clear'', ''Green'', ''Brown'', ''Other''] then []
           else [''Invalid water_color. Must be one of: Clear, Green, Brown, Other''])
        @ (if shrimp_behavior p \<in> set [''Active'', ''Lethargic'', ''Coming to Surface''] then []
           else [''Invalid shrimp_behavior. Must be one of: Active, Lethargic, Coming to Surface''])
        @ (if 10 \<le> secchi_disk p \<and> secchi_disk p \<le> 60 then []
           else [''secchi_disk must be between 10 and 60''])
        @ (if 6 \<le> ph p \<and> ph p \<le> 9 then []
           else [''ph must be between 6.0 and 9.0''])
        @ (if 100 \<le> area p \<and> area p \<le> 10000 then []
           else [''area must be between 100 and 10000''])
        @ (if 0.8 \<le> depth p \<and> depth p \<le> 2.5 then []
           else [''depth must be between 0.8 and 2.5''])
        @ (if 15 \<le> stocking_density p \<and> stocking_density p \<le> 150 then []
           else [''stocking_density must be between 15 and 150''])
        @ (if culture_start_date p > shd clk
           then [''Culture start date cannot be in the future''] else []))
   \<and> (fst (validate_input p clk) = Inr [] \<longrightarrow>
        fst (validate_input (p\<lparr>secchi_disk := 10\<rparr>) clk) = Inr []
      \<and> fst (validate_input (p\<lparr>secchi_disk := 60\<rparr>) clk) = Inr []
      \<and> fst (validate_input (p\<lparr>ph := 6.0\<rparr>) clk) = Inr []
      \<and> fst (validate_input (p\<lparr>ph := 9.0\<rparr>) clk) = Inr []
      \<and> fst (validate_input (p\<lparr>area := 100\<rparr>) clk) = Inr []
      \<and> fst (validate_input (p\<lparr>area := 10000\<rparr>) clk) = Inr []
      \<and> fst (validate_input (p\<lparr>depth := 0.8\<rparr>) clk) = Inr []
      \<and> fst (validate_input (p\<lparr>depth := 2.5\<rparr>) clk) = Inr []
      \<and> fst (validate_input (p\<lparr>stocking_density := 15\<rparr>) clk) = Inr []
      \<and> fst (validate_input (p\<lparr>stocking_density := 150\<rparr>) clk) = Inr []
      \<and> fst (validate_input (p\<lparr>secchi_disk := 10 - 1\<rparr>) clk)
          = Inr [''secchi_disk must be between 10 and 60'']
      \<and> fst (validate_input (p\<lparr>secchi_disk := 60 + 1\<rparr>) clk)
          = Inr [''secchi_disk must be between 10 and 60'']
      \<and> fst (validate_input (p\<lparr>ph := 6.0 - 1\<rparr>) clk) = Inr [''ph must be between 6.0 and 9.0'']
      \<and> fst (validate_input (p\<lparr>ph := 9.0 + 1\<rparr>) clk) = Inr [''ph must be between 6.0 and 9.0'']
      \<and> fst (validate_input (p\<lparr>area := 100 - 1\<rparr>) clk)
          = Inr [''area must be between 100 and 10000'']
      \<and> fst (validate_input (p\<lparr>area := 10000 + 1\<rparr>) clk)
          = Inr [''area must be between 100 and 10000'']
      \<and> fst (validate_input (p\<lparr>depth := 0.8 - 1\<rparr>) clk)
          = Inr [''depth must be between 0.8 and 2.5'']
      \<and> fst (validate_input (p\<lparr>depth := 2.5 + 1\<rparr>) clk)
          = Inr [''depth must be between 0.8 and 2.5'']
      \<and> fst (validate_input (p\<lparr>stocking_density := 15 - 1\<rparr>) clk)
          = Inr [''stocking_density must be between 15 and 150'']
      \<and> fst (validate_input (p\<lparr>stocking_density := 150 + 1\<rparr>) clk)
          = Inr [''stocking_density must be between 15 and 150''])"
  by (intro conjI impI;
      (rule validate_input_errors | erule validator_at_boundary | erule validator_one_outside))

theorem validator_ranges_inclusive_witness:
  "fst (validate_input scenario_pond (sconst (45 * day))) = Inr []
   \<and> fst (validate_input (scenario_pond\<lparr>depth := 0.8\<rparr>) (sconst (45 * day))) = Inr []
   \<and> fst (validate_input (scenario_pond\<lparr>stocking_density := 150 + 1\<rparr>) (sconst (45 * day)))
       = Inr [''stocking_density must be between 15 and 150'']
   \<and> fst (validate_input (scenario_pond\<lparr>ph := 10, area := 50, water_color := ''Blue''\<rparr>)
            (sconst (45 * day)))
       = Inr [''Invalid water_color. Must be one of: Clear, Green, Brown, Other'',
              ''ph must be between 6.0 and 9.0'', ''area must be between 100 and 10000'']"
proof -
  have ok: "fst (validate_input scenario_pond (sconst (45 * day))) = Inr []"
    by (simp add: validate_input_ok_iff scenario_pond_def day_def)
  have many:
    "fst (validate_input (scenario_pond\<lparr>ph := 10, area := 50, water_color := ''Blue''\<rparr>)
            (sconst (45 * day)))
       = Inr [''Invalid water_color. Must be one of: Clear, Green, Brown, Other'',
              ''ph must be between 6.0 and 9.0'', ''area must be between 100 and 10000'']"
    using validator_ranges_inclusive
      [of "scenario_pond\<lparr>ph := 10, area := 50, water_color := ''Blue''\<rparr>" "sconst (45 * day)"]
    by (simp add: scenario_pond_def day_def)
  from validator_ranges_inclusive [of scenario_pond "sconst (45 * day)"] ok many
  show ?thesis by blast
qed

section \<open>Growth model\<close>

lemma density_factor_cases: "density_factor p \<in> {1.1, 0.9, 1}"
  by (simp add: density_factor_def)

lemma depth_factor_cases: "depth_factor p \<in> {0.9, 0.95, 1}"
  by (simp add: depth_factor_def)

lemma temp_factor_cases: "temp_factor w \<in> {0.8, 0.7, 1}"
  by (simp add: temp_factor_def split: option.split)

lemma adjusted_growth_lower: "0.015 \<le> adjusted_growth p w"
proof -
  have a: "0.9 \<le> density_factor p" using density_factor_cases [of p] by auto
  have b: "0.9 \<le> depth_factor p" using depth_factor_cases [of p] by auto
  have c: "0.7 \<le> temp_factor w" using temp_factor_cases [of w] by auto
  have "0.9 * 0.9 \<le> density_factor p * depth_factor p"
    using a b by (intro mult_mono) auto
  then have "0.9 * 0.9 * 0.7 \<le> density_factor p * depth_factor p * temp_factor w"
    using c a b by (intro mult_mono) auto
  then show ?thesis
    unfolding adjusted_growth_def by (simp add: mult.assoc)
qed

text \<open>
  Claim C7. With the pond and the weather fixed, a larger number of days of culture gives
  a strictly larger estimated size, the rounding to 4 decimals notwithstanding: one more
  day adds at least 0.015 g before rounding, which is more than one unit of the last
  decimal kept.
\<close>

theorem estimated_size_strictly_increasing:
  "d1 < d2 \<Longrightarrow>
   estimated_size (predict_growth p w d1) < estimated_size (predict_growth p w d2)"
proof -
  assume lt: "d1 < d2"
  define g where "g = adjusted_growth p w"
  have g: "0.015 \<le> g" unfolding g_def by (rule adjusted_growth_lower)
  have "1 \<le> rat_of_int (d2 - d1)" using lt by (simp add: less_le_not_le of_int_1_le_iff [symmetric] del: of_int_diff of_int_1_le_iff) 
  then have "g * 1 \<le> g * rat_of_int (d2 - d1)"
    using g by (intro mult_left_mono) auto
  then have "g * of_int d1 + g \<le> g * of_int d2"
    by (simp add: right_diff_distrib)
  then have "(0.002 + g * of_int d1) + 1 / 10 ^ 4 < 0.002 + g * of_int d2"
    using g by simp
  then have "py_round_nd (0.002 + g * of_int d1) 4 < py_round_nd (0.002 + g * of_int d2) 4"
    by (rule py_round_nd_strict_mono)
  then show ?thesis
    by (simp add: predict_growth_def Let_def g_def)
qed

theorem estimated_size_strictly_increasing_witness:
  "(45::int) < 46
   \<and> estimated_size (predict_growth scenario_pond None 45)
     < estimated_size (predict_growth scenario_pond None 46)"
  using estimated_size_strictly_increasing [of 45 46 scenario_pond None] by simp

lemma predict_growth_fields:
  "daily_growth (predict_growth p w d) = py_round_nd (adjusted_growth p w) 4"
  "weekly_growth (predict_growth p w d) = py_round_nd (adjusted_growth p w * 7) 4"
  "estimated_size (predict_growth p w d) = py_round_nd (0.002 + adjusted_growth p w * of_int d) 4"
  by (simp_all add: predict_growth_def Let_def)

lemma adjusted_growth_sample:
  "adjusted_growth (scenario_pond\<lparr>stocking_density := 40, depth := 1\<rparr>) None = 0.02772"
  "adjusted_growth scenario_pond None = 0.028"
  "adjusted_growth (scenario_pond\<lparr>area := 101, stocking_density := 15\<rparr>) None = 0.0308"
  by (simp_all add: adjusted_growth_def density_factor_def depth_factor_def temp_factor_def
      scenario_pond_def)

text \<open>
  Claim C3 says that the weekly growth and the estimated size are computed from the daily
  rate already rounded to 4 decimals. The source rounds \<^verbatim>\<open>adjusted_growth\<close> three times
  independently instead. With stocking density 40 and depth 1.0 the unrounded rate is
  0.02772: the daily figure is 0.0277, the weekly figure is 0.1940 and not
  \<open>0.0277 * 7 = 0.1939\<close>, and after 45 days the size is 1.2494 and not 1.2485.
\<close>

theorem growth_from_rounded_rate_counterexample:
  "weekly_growth (predict_growth (scenario_pond\<lparr>stocking_density := 40, depth := 1\<rparr>) None 45)
     \<noteq> daily_growth (predict_growth (scenario_pond\<lparr>stocking_density := 40, depth := 1\<rparr>) None 45) * 7
   \<and> estimated_size (predict_growth (scenario_pond\<lparr>stocking_density := 40, depth := 1\<rparr>) None 45)
     \<noteq> py_round_nd (0.002
          + daily_growth (predict_growth (scenario_pond\<lparr>stocking_density := 40, depth := 1\<rparr>) None 45)
            * of_int 45) 4"
  by (simp add: predict_growth_fields adjusted_growth_sample eval_round)

text \<open>
  Claim C3 as amended: the three outputs are roundings to 4 decimals of the unrounded rate,
  of 7 times the unrounded rate, and of 0.002 plus the unrounded rate times the days of
  culture. The daily and the weekly figure take one of 27 values each, none of them at a
  tie. The estimated size is a number of 4 decimals within 0.00005 of \<open>0.002 + rate * days\<close>,
  which determines it unless that value lies exactly halfway between two such numbers
  (rate 0.020482 after 25 days gives 0.51405). The relations of the claim hold whenever
  rounding leaves the rate unchanged; the size is then \<open>0.002 + daily * days\<close> with no
  rounding left to do.
\<close>

theorem growth_from_unrounded_rate:
  "daily_growth (predict_growth p w d) = py_round_nd (adjusted_growth p w) 4
   \<and> weekly_growth (predict_growth p w d) = py_round_nd (adjusted_growth p w * 7) 4
   \<and> (\<exists>k::int. estimated_size (predict_growth p w d) = of_int k / 10 ^ 4)
   \<and> \<bar>estimated_size (predict_growth p w d) - (0.002 + adjusted_growth p w * of_int d)\<bar>
       \<le> 0.00005
   \<and> (daily_growth (predict_growth p w d) = adjusted_growth p w \<longrightarrow>
        weekly_growth (predict_growth p w d) = daily_growth (predict_growth p w d) * 7
      \<and> estimated_size (predict_growth p w d)
          = 0.002 + daily_growth (predict_growth p w d) * of_int d
      \<and> estimated_size (predict_growth p w d)
          = py_round_nd (0.002 + daily_growth (predict_growth p w d) * of_int d) 4)"
proof -
  define g where "g = adjusted_growth p w"
  have f: "daily_growth (predict_growth p w d) = py_round_nd g 4"
          "weekly_growth (predict_growth p w d) = py_round_nd (g * 7) 4"
          "estimated_size (predict_growth p w d) = py_round_nd (0.002 + g * of_int d) 4"
    by (simp_all add: predict_growth_fields g_def)
  have k: "\<exists>k::int. estimated_size (predict_growth p w d) = of_int k / 10 ^ 4"
    unfolding f by (rule py_round_nd_decimal)
  have e: "\<bar>estimated_size (predict_growth p w d) - (0.002 + g * of_int d)\<bar> \<le> 0.00005"
    unfolding f using py_round_nd_error [of "0.002 + g * of_int d" 4] by simp
  have c: "py_round_nd 0.002 4 = 0.002"
    by (simp add: eval_round)
  have r: "py_round_nd (g * 7) 4 = g * 7 \<and> py_round_nd (0.002 + g * of_int d) 4 = 0.002 + g * of_int d"
    if "py_round_nd g 4 = g"
    using decimal_times_int [OF that, of 7] decimal_plus_times_int [OF c that, of d] by simp
  show ?thesis
    unfolding g_def [symmetric] using k e r by (auto simp add: f)
qed

theorem growth_from_unrounded_rate_witness:
  "daily_growth (predict_growth scenario_pond None 45) = adjusted_growth scenario_pond None
   \<and> weekly_growth (predict_growth scenario_pond None 45)
       = daily_growth (predict_growth scenario_pond None 45) * 7
   \<and> estimated_size (predict_growth scenario_pond None 45)
       = 0.002 + daily_growth (predict_growth scenario_pond None 45) * of_int 45
   \<and> estimated_size (predict_growth scenario_pond None 45)
       = py_round_nd (0.002 + daily_growth (predict_growth scenario_pond None 45) * of_int 45) 4"
proof -
  have h: "daily_growth (predict_growth scenario_pond None 45) = adjusted_growth scenario_pond None"
    by (simp add: predict_growth_fields adjusted_growth_sample eval_round)
  from growth_from_unrounded_rate [of scenario_pond None 45] h show ?thesis by blast
qed

section \<open>Feed planner\<close>




section \<open>The orchestrated analysis\<close>

text \<open>
  Every function that reads the clock takes exactly one reading, so \<^verbatim>\<open>analyze_pond\<close> sees
  three successive readings: the first gives \<^verbatim>\<open>days_of_culture\<close> and feeds the growth
  model, the second is taken by the survival estimator, the third by the confidence scorer.
\<close>

lemma estimate_biomass_fields:
  "estimated_population (fst (estimate_biomass p g clk))
     = py_round (area p * of_int (stocking_density p) * fst (estimate_survival_rate p clk))"
  "survival_rate (fst (estimate_biomass p g clk)) = fst (estimate_survival_rate p clk)"
  "estimated_biomass (fst (estimate_biomass p g clk))
     = py_round_nd (area p * of_int (stocking_density p) * fst (estimate_survival_rate p clk)
                    * estimated_size g) 2 / 1000"
  by (simp_all add: estimate_biomass_def Let_def split_beta)

lemma clock_after_reads:
  "snd (estimate_survival_rate p clk) = stl clk"
  "snd (estimate_biomass p g clk) = stl clk"
  "snd (calculate_confidence p w clk) = stl clk"
  by (simp_all add: estimate_survival_rate_def estimate_biomass_def calculate_confidence_def
      datetime_now_def Let_def split_beta)

lemma analyze_pond_fields:
  "days_of_culture (fst (analyze_pond p w clk)) = timedelta_days (shd clk) (culture_start_date p)"
  "growth_prediction (fst (analyze_pond p w clk))
     = predict_growth p w (timedelta_days (shd clk) (culture_start_date p))"
  "biomass_estimation (fst (analyze_pond p w clk))
     = fst (estimate_biomass p
         (predict_growth p w (timedelta_days (shd clk) (culture_start_date p))) (stl clk))"
  "confidence_score (fst (analyze_pond p w clk)) = fst (calculate_confidence p w (stl (stl clk)))"
  by (simp_all add: analyze_pond_def datetime_now_def Let_def split_beta clock_after_reads)

subsection \<open>Biomass\<close>




subsection \<open>One analysis, three clock readings\<close>

text \<open>
  Claim C2 says that within one analysis the days of culture are captured once and that
  the growth model, the survival estimator and the confidence scorer all observe that one
  value. The source passes the captured value to \<^verbatim>\<open>_predict_growth\<close> only; the other two
  read the clock again. When midnight of day 61 falls between the first and the second
  reading, the report carries 60 days of culture and a survival rate of 0.83, the rate for
  more than 60 days (it is 0.85 when all readings fall on day 60). When midnight of day
  101 falls before the third reading, the report carries 100 days and a confidence of 75,
  the score with the penalty for more than 100 days (it is 80 otherwise).
\<close>

theorem days_of_culture_read_three_times:
  "days_of_culture (fst (analyze_pond scenario_pond None ((61 * day - 1) ## sconst (61 * day)))) = 60
   \<and> survival_rate (biomass_estimation
        (fst (analyze_pond scenario_pond None ((61 * day - 1) ## sconst (61 * day))))) = 0.83
   \<and> survival_rate (biomass_estimation
        (fst (analyze_pond scenario_pond None (sconst (61 * day - 1))))) = 0.85
   \<and> days_of_culture (fst (analyze_pond scenario_pond None
        ((101 * day - 1) ## (101 * day - 1) ## sconst (101 * day)))) = 100
   \<and> confidence_score (fst (analyze_pond scenario_pond None
        ((101 * day - 1) ## (101 * day - 1) ## sconst (101 * day)))) = 75
   \<and> confidence_score (fst (analyze_pond scenario_pond None (sconst (101 * day - 1)))) = 80"
  unfolding analyze_pond_fields estimate_biomass_fields
  by (simp add: survival_rate_cases calculate_confidence_def datetime_now_def Let_def
      scenario_pond_def timedelta_days_def day_def)

subsection \<open>Determinism\<close>

text \<open>
  Claim C4 says that two invocations with the same pond parameters and the same weather
  give identical reports. The report depends on the clock as well: the same pond analysed
  on day 45 and on day 46 of culture gives two different reports.
\<close>

theorem analysis_depends_on_clock_counterexample:
  "fst (analyze_pond scenario_pond None (sconst (45 * day)))
     \<noteq> fst (analyze_pond scenario_pond None (sconst (46 * day)))"
proof
  assume "fst (analyze_pond scenario_pond None (sconst (45 * day)))
            = fst (analyze_pond scenario_pond None (sconst (46 * day)))"
  then have "days_of_culture (fst (analyze_pond scenario_pond None (sconst (45 * day))))
               = days_of_culture (fst (analyze_pond scenario_pond None (sconst (46 * day))))"
    by simp
  then show False
    by (simp add: analyze_pond_fields scenario_pond_def timedelta_days_def day_def)
qed

lemma estimate_biomass_cong:
  assumes "timedelta_days (shd c) (culture_start_date p) = timedelta_days (shd c') (culture_start_date p)"
  shows "fst (estimate_biomass p g c) = fst (estimate_biomass p g c')"
proof -
  have "fst (estimate_survival_rate p c) = fst (estimate_survival_rate p c')"
    using assms by (simp add: survival_rate_cases)
  then show ?thesis
    by (simp add: estimate_biomass_def Let_def split_beta)
qed

lemma calculate_confidence_cong:
  assumes "timedelta_days (shd c) (culture_start_date p) = timedelta_days (shd c') (culture_start_date p)"
  shows "fst (calculate_confidence p w c) = fst (calculate_confidence p w c')"
  using assms by (simp add: calculate_confidence_def datetime_now_def Let_def)

text \<open>
  Claim C4 as amended: the report is a function of the pond parameters, the weather and
  the days of culture that the three clock readings give. Two invocations with the same
  parameters and weather whose readings give the same days of culture, reading by
  reading, return identical reports; in particular two invocations on the same day of
  culture do.
\<close>

theorem analysis_deterministic_given_days:
  assumes "timedelta_days (shd c) (culture_start_date p)
             = timedelta_days (shd c') (culture_start_date p)"
    and "timedelta_days (shd (stl c)) (culture_start_date p)
             = timedelta_days (shd (stl c')) (culture_start_date p)"
    and "timedelta_days (shd (stl (stl c))) (culture_start_date p)
             = timedelta_days (shd (stl (stl c'))) (culture_start_date p)"
  shows "fst (analyze_pond p w c) = fst (analyze_pond p w c')"
proof -
  have b: "fst (estimate_biomass p g (stl c)) = fst (estimate_biomass p g (stl c'))" for g
    using assms(2) by (rule estimate_biomass_cong)
  have k: "fst (calculate_confidence p w (stl (stl c))) = fst (calculate_confidence p w (stl (stl c')))"
    using assms(3) by (rule calculate_confidence_cong)
  show ?thesis
    by (simp add: analyze_pond_def datetime_now_def Let_def split_beta clock_after_reads
        assms(1) b k)
qed

theorem analysis_deterministic_given_days_witness:
  "timedelta_days (shd (sconst (45 * day))) (culture_start_date scenario_pond)
     = timedelta_days (shd (siterate (\<lambda>t. t + 7) (45 * day + 3600000000)))
         (culture_start_date scenario_pond)
   \<and> timedelta_days (shd (stl (sconst (45 * day)))) (culture_start_date scenario_pond)
     = timedelta_days (shd (stl (siterate (\<lambda>t. t + 7) (45 * day + 3600000000))))
         (culture_start_date scenario_pond)
   \<and> timedelta_days (shd (stl (stl (sconst (45 * day))))) (culture_start_date scenario_pond)
     = timedelta_days (shd (stl (stl (siterate (\<lambda>t. t + 7) (45 * day + 3600000000)))))
         (culture_start_date scenario_pond)
   \<and> fst (analyze_pond scenario_pond None (sconst (45 * day)))
     = fst (analyze_pond scenario_pond None (siterate (\<lambda>t. t + 7) (45 * day + 3600000000)))"
proof -
  have h1: "timedelta_days (shd (sconst (45 * day))) (culture_start_date scenario_pond)
     = timedelta_days (shd (siterate (\<lambda>t. t + 7) (45 * day + 3600000000)))
         (culture_start_date scenario_pond)"
    by (simp add: timedelta_days_def day_def scenario_pond_def)
  have h2: "timedelta_days (shd (stl (sconst (45 * day)))) (culture_start_date scenario_pond)
     = timedelta_days (shd (stl (siterate (\<lambda>t. t + 7) (45 * day + 3600000000))))
         (culture_start_date scenario_pond)"
    by (simp add: timedelta_days_def day_def scenario_pond_def)
  have h3: "timedelta_days (shd (stl (stl (sconst (45 * day))))) (culture_start_date scenario_pond)
     = timedelta_days (shd (stl (stl (siterate (\<lambda>t. t + 7) (45 * day + 3600000000)))))
         (culture_start_date scenario_pond)"
    by (simp add: timedelta_days_def day_def scenario_pond_def)
  from analysis_deterministic_given_days [OF h1 h2 h3, of None] h1 h2 h3
  show ?thesis by blast
qed

end
